theory Spec2Isabelle
  imports Complex_Main "HOL-Library.Word" "HOL-Library.Sublist"
begin

section \<open>Python values used by \<open>app.py\<close>\<close>

text \<open>
  A Python \<open>str\<close> is a sequence of Unicode code points, so it is modelled as a list of
  code points. String literals of the source are written with \<open>u\<close>; the few non-ASCII
  characters of the source's messages are given by their code point.
\<close>

type_synonym pystr = "nat list"

definition u :: "string \<Rightarrow> pystr" where
  "u s = map of_char s"

text \<open>
  \<open>str.isspace\<close> for one code point: the characters Python's \<open>str.strip()\<close> removes
  when called without an argument.
\<close>

definition isspace :: "nat \<Rightarrow> bool" where
  "isspace c \<longleftrightarrow>
     (9 \<le> c \<and> c \<le> 13) \<or> (28 \<le> c \<and> c \<le> 32) \<or> c = 133 \<or> c = 160 \<or> c = 5760 \<or>
     (8192 \<le> c \<and> c \<le> 8202) \<or> c = 8232 \<or> c = 8233 \<or> c = 8239 \<or> c = 8287 \<or>
     c = 12288"

definition strip :: "pystr \<Rightarrow> pystr" where
  "strip s = rev (dropWhile isspace (rev (dropWhile isspace s)))"

text \<open>\<open>s.split(sep)\<close> for a one-character separator: never an empty list.\<close>

fun split :: "nat \<Rightarrow> pystr \<Rightarrow> pystr list" where
  "split sep [] = [[]]"
| "split sep (c # cs) =
     (if c = sep then [] # split sep cs
      else (let r = split sep cs in (c # hd r) # tl r))"

text \<open>
  JSON values as Python holds them after \<open>json.loads\<close> / \<open>resp.json()\<close>. A dict is an
  association list read with \<open>map_of\<close>.
\<close>

datatype json =
    JNull
  | JBool bool
  | JInt int
  | JFloat real
  | JStr pystr
  | JList "json list"
  | JObj "(pystr \<times> json) list"

type_synonym pydict = "(pystr \<times> json) list"

text \<open>Python truthiness, as used by \<open>if x:\<close> and \<open>x or y\<close>.\<close>

fun truthy :: "json \<Rightarrow> bool" where
  "truthy JNull = False"
| "truthy (JBool b) = b"
| "truthy (JInt i) = (i \<noteq> 0)"
| "truthy (JFloat r) = (r \<noteq> 0)"
| "truthy (JStr s) = (s \<noteq> [])"
| "truthy (JList xs) = (xs \<noteq> [])"
| "truthy (JObj kvs) = (kvs \<noteq> [])"

definition py_or :: "json \<Rightarrow> json \<Rightarrow> json" where
  "py_or a b = (if truthy a then a else b)"

text \<open>\<open>d.get(k)\<close> on a dict: \<open>None\<close> when the key is missing.\<close>

definition dict_get :: "pydict \<Rightarrow> pystr \<Rightarrow> json" where
  "dict_get d k = (case map_of d k of None \<Rightarrow> JNull | Some v \<Rightarrow> v)"

section \<open>Object keys\<close>

text \<open>
  \<open>uuid4().hex\<close>: the 128-bit value of the UUID as 32 lower-case hexadecimal digits.
  The random value itself is an input of the model.
\<close>

definition hexdigit :: "nat \<Rightarrow> nat" where
  "hexdigit d = (if d < 10 then 48 + d else 87 + d)"

text \<open>The last \<open>k\<close> hexadecimal digits of \<open>n\<close>, padded with zeros on the left.\<close>

fun hex_digits :: "nat \<Rightarrow> nat \<Rightarrow> pystr" where
  "hex_digits 0 n = []"
| "hex_digits (Suc k) n = hex_digits k (n div 16) @ [hexdigit (n mod 16)]"

definition uuid_hex :: "128 word \<Rightarrow> pystr" where
  "uuid_hex w = hex_digits 32 (unat w)"

definition is_hex :: "nat \<Rightarrow> bool" where
  "is_hex c \<longleftrightarrow> (48 \<le> c \<and> c \<le> 57) \<or> (97 \<le> c \<and> c \<le> 102)"

text \<open>
  \<^verbatim>\<open>
  def s3_safe_key(name: str) -> str:
      ext = ""
      if "." in name:
          ext = "." + name.split(".")[-1]
      return f"{uuid4().hex}{ext}"
  \<close>
  The first argument is the value \<open>uuid4()\<close> returns in this call.
\<close>

definition s3_safe_key :: "128 word \<Rightarrow> pystr \<Rightarrow> pystr" where
  "s3_safe_key uuid name =
     (let ext = (if 46 \<in> set name then [46] @ last (split 46 name) else [])
      in uuid_hex uuid @ ext)"

section \<open>The outside world\<close>

text \<open>
  What \<open>requests\<close>, \<open>boto3\<close>, \<open>uuid\<close> and \<open>json\<close> do is not part of the program: their
  results are inputs of the model (the record \<open>env\<close>), and every call the program issues
  is written to a log of \<open>call\<close>s. An exception is a value; a computation that can raise
  returns \<open>exn + 'a\<close>.
\<close>

text \<open>
  A response holds its status code, its body text and the outcome of \<open>resp.json()\<close>: the
  decoded value, or the exception the decoder raises. That is a \<open>ValueError\<close> for a
  malformed body, but not only: a body nested too deeply raises \<open>RecursionError\<close>, which
  is an \<open>OtherException\<close> here.

  The exception classes are the ones the source tells apart; each carries \<open>str(e)\<close>. An
  \<open>HTTPError\<close> carries \<open>e.response\<close>, a \<open>ClientError\<close> the \<open>Error\<close> entry of \<open>e.response\<close> (a
  dict, when present). \<open>RequestException\<close> stands for every subclass of
  \<open>requests.RequestException\<close> other than \<open>HTTPError\<close> that is not a \<open>ValueError\<close>,
  \<open>ValueError\<close> for \<open>ValueError\<close> and its subclasses (the decoding errors of \<open>json\<close> and of
  \<open>requests\<close> among them), \<open>OtherException\<close> for every other subclass of \<open>Exception\<close>.
\<close>

datatype response =
    Response (status_code: nat) (resp_text: pystr) (resp_json: "exn + json")
and exn =
    HTTPError "response option" pystr
  | RequestException pystr
  | ValueError pystr
  | NoCredentialsError pystr
  | EndpointConnectionError pystr
  | ClientError "pydict option" pystr
  | AttributeError pystr
  | KeyError pystr
  | OtherException pystr

fun exn_str :: "exn \<Rightarrow> pystr" where
  "exn_str (HTTPError r m) = m"
| "exn_str (RequestException m) = m"
| "exn_str (ValueError m) = m"
| "exn_str (NoCredentialsError m) = m"
| "exn_str (EndpointConnectionError m) = m"
| "exn_str (ClientError err m) = m"
| "exn_str (AttributeError m) = m"
| "exn_str (KeyError m) = m"
| "exn_str (OtherException m) = m"

text \<open>\<open>isinstance(e, ValueError)\<close>\<close>

fun is_ValueError :: "exn \<Rightarrow> bool" where
  "is_ValueError (ValueError m) = True"
| "is_ValueError e = False"

text \<open>\<open>isinstance(e, requests.RequestException)\<close>\<close>

fun is_RequestException :: "exn \<Rightarrow> bool" where
  "is_RequestException (HTTPError r m) = True"
| "is_RequestException (RequestException m) = True"
| "is_RequestException e = False"

record uploaded_file =
  file_name :: pystr  \<comment> \<open>\<open>f.name\<close>\<close>
  file_bytes :: "nat list"

datatype call =
    Get pystr nat  \<comment> \<open>\<open>requests.get(url, timeout=t)\<close>\<close>
  | Post pystr pydict nat  \<comment> \<open>\<open>requests.post(url, json=payload, timeout=t)\<close>\<close>
  | HeadBucket pystr  \<comment> \<open>\<open>s3.head_bucket(Bucket=b)\<close>\<close>
  | UploadFileobj uploaded_file pystr pystr pydict
      \<comment> \<open>\<open>s3.upload_fileobj(f, bucket, key, ExtraArgs=args)\<close>\<close>

record env =
  uuid4 :: "nat \<Rightarrow> 128 word"  \<comment> \<open>the value of the \<open>i\<close>-th call of \<open>uuid4()\<close>\<close>
  requests_get :: "pystr \<Rightarrow> nat \<Rightarrow> exn + response"
  requests_post :: "pystr \<Rightarrow> pydict \<Rightarrow> nat \<Rightarrow> exn + response"
  http_error_str :: "response \<Rightarrow> pystr"
    \<comment> \<open>\<open>str(e)\<close> of the error \<open>raise_for_status\<close> builds\<close>
  head_bucket :: "pystr \<Rightarrow> exn + unit"
  upload_fileobj :: "nat \<Rightarrow> uploaded_file \<Rightarrow> pystr \<Rightarrow> pystr \<Rightarrow> pydict \<Rightarrow> exn + unit"
    \<comment> \<open>the outcome of the \<open>i\<close>-th upload\<close>
  json_loads :: "pystr \<Rightarrow> exn + json"
  py_repr :: "json \<Rightarrow> pystr"  \<comment> \<open>Python's \<open>repr\<close>\<close>

text \<open>
  \<open>str(v)\<close>, as an f-string formats a value: a string is itself, anything else is its
  \<open>repr\<close>.
\<close>

definition py_str :: "env \<Rightarrow> json \<Rightarrow> pystr" where
  "py_str env v = (case v of JStr s \<Rightarrow> s | _ \<Rightarrow> py_repr env v)"

text \<open>\<open>str(n)\<close> for a status code.\<close>

fun str_nat :: "nat \<Rightarrow> pystr" where
  "str_nat n = (if n < 10 then [48 + n] else str_nat (n div 10) @ [48 + n mod 10])"

declare str_nat.simps [simp del]

text \<open>
  \<open>Response.raise_for_status()\<close>: an \<open>HTTPError\<close> holding the response for a status from
  400 to 599, nothing otherwise.
\<close>

definition raise_for_status :: "env \<Rightarrow> response \<Rightarrow> exn + unit" where
  "raise_for_status env resp =
     (if 400 \<le> status_code resp \<and> status_code resp < 600
      then Inl (HTTPError (Some resp) (http_error_str env resp))
      else Inr ())"

section \<open>Config\<close>

record config =
  POD_ID :: pystr
  BUCKET_NAME :: pystr
  S3_ENDPOINT :: "pystr option"
  AWS_REGION :: pystr
  AWS_ACCESS_KEY_ID :: "pystr option"
  AWS_SECRET_ACCESS_KEY :: "pystr option"
  AWS_SESSION_TOKEN :: "pystr option"

text \<open>\<open>os.getenv(key, default)\<close> over the process environment (after \<open>load_dotenv()\<close>).\<close>

definition getenv_default :: "(pystr \<rightharpoonup> pystr) \<Rightarrow> pystr \<Rightarrow> pystr \<Rightarrow> pystr" where
  "getenv_default environ key dflt = (case environ key of None \<Rightarrow> dflt | Some v \<Rightarrow> v)"

definition load_config :: "(pystr \<rightharpoonup> pystr) \<Rightarrow> config" where
  "load_config environ =
     \<lparr> POD_ID = getenv_default environ (u ''POD_ID'') (u ''i1q8dnudt5raii''),
       BUCKET_NAME = getenv_default environ (u ''BUCKET_NAME'') (u ''rag-teste-bnu''),
       S3_ENDPOINT = environ (u ''S3_ENDPOINT''),
       AWS_REGION = getenv_default environ (u ''AWS_REGION'') (u ''us-east-1''),
       AWS_ACCESS_KEY_ID = environ (u ''AWS_ACCESS_KEY_ID''),
       AWS_SECRET_ACCESS_KEY = environ (u ''AWS_SECRET_ACCESS_KEY''),
       AWS_SESSION_TOKEN = environ (u ''AWS_SESSION_TOKEN'') \<rparr>"

definition BACKEND_PORT :: pystr where
  "BACKEND_PORT = u ''8000''"

definition BACKEND_URL :: "config \<Rightarrow> pystr" where
  "BACKEND_URL cfg = u ''https://'' @ POD_ID cfg @ u ''-'' @ BACKEND_PORT @ u ''.proxy.runpod.net/''"

definition PREFIX_BASE :: pystr where
  "PREFIX_BASE = u ''uploads''"

text \<open>\<open>x or None\<close> and \<open>if x:\<close> for an optional string: \<open>None\<close> and \<open>""\<close> are false.\<close>

definition or_None :: "pystr option \<Rightarrow> pystr option" where
  "or_None x = (case x of None \<Rightarrow> None | Some s \<Rightarrow> if s = [] then None else Some s)"

definition opt_json :: "pystr option \<Rightarrow> json" where
  "opt_json x = (case x of None \<Rightarrow> JNull | Some s \<Rightarrow> JStr s)"

section \<open>Health check\<close>

text \<open>
  \<^verbatim>\<open>
  def check_health_server() -> bool:
      try:
          resp = requests.get(f"{BACKEND_URL}/health", timeout=10)
          return resp.status_code == 200
      except requests.RequestException:
          return False
  \<close>
\<close>

definition check_health_server :: "env \<Rightarrow> config \<Rightarrow> (exn + bool) \<times> call list" where
  "check_health_server env cfg =
     (let url = BACKEND_URL cfg @ u ''/health'' in
      ((case requests_get env url 10 of
          Inr resp \<Rightarrow> Inr (status_code resp = 200)
        | Inl e \<Rightarrow> if is_RequestException e then Inr False else Inl e),
       [Get url 10]))"

section \<open>S3 client and access check\<close>

record botocore_config =
  signature_version :: "pystr option"
  retries :: "pydict option"  \<comment> \<open>\<open>None\<close>: the library's default retry behaviour\<close>

record s3_client =
  service_name :: pystr
  endpoint_url :: "pystr option"
  client_config :: botocore_config
  session_kwargs :: pydict

text \<open>
  \<^verbatim>\<open>
  session_kwargs = dict(
      aws_access_key_id=AWS_ACCESS_KEY_ID,
      aws_secret_access_key=AWS_SECRET_ACCESS_KEY,
      region_name=AWS_REGION,
  )
  if AWS_SESSION_TOKEN:
      session_kwargs["aws_session_token"] = AWS_SESSION_TOKEN

  s3 = boto3.client(
      "s3",
      endpoint_url=S3_ENDPOINT or None,
      config=Config(signature_version="s3v4", retries={"max_attempts": 3, "mode": "standard"}),
      **session_kwargs
  )
  \<close>
\<close>

definition s3 :: "config \<Rightarrow> s3_client" where
  "s3 cfg =
     \<lparr> service_name = u ''s3'',
       endpoint_url = or_None (S3_ENDPOINT cfg),
       client_config =
         \<lparr> signature_version = Some (u ''s3v4''),
           retries = Some [(u ''max_attempts'', JInt 3), (u ''mode'', JStr (u ''standard''))] \<rparr>,
       session_kwargs =
         [(u ''aws_access_key_id'', opt_json (AWS_ACCESS_KEY_ID cfg)),
          (u ''aws_secret_access_key'', opt_json (AWS_SECRET_ACCESS_KEY cfg)),
          (u ''region_name'', JStr (AWS_REGION cfg))] @
         (case or_None (AWS_SESSION_TOKEN cfg) of
            None \<Rightarrow> []
          | Some t \<Rightarrow> [(u ''aws_session_token'', JStr t)]) \<rparr>"

text \<open>
  \<^verbatim>\<open>
  def check_s3_access() -> tuple[bool, str]:
      try:
          s3.head_bucket(Bucket=BUCKET_NAME)
          return True, "Acesso ao bucket OK."
      except NoCredentialsError:
          return False, "Credenciais AWS ausentes."
      except EndpointConnectionError as e:
          return False, f"Falha ao conectar no endpoint S3 ({S3_ENDPOINT or 'AWS padrao'}): {e}"
      except ClientError as e:
          return False, f"ClientError ao acessar bucket: {e.response.get('Error', {})}"
      except Exception as e:
          return False, f"Erro inesperado no S3: {e}"
  \<close>
  (the source writes \<open>padrao\<close> with a tilde on the second \<open>a\<close>, code point 227).
\<close>

definition s3_error_message :: "env \<Rightarrow> config \<Rightarrow> exn \<Rightarrow> pystr" where
  "s3_error_message env cfg e =
     (case e of
        NoCredentialsError m \<Rightarrow> u ''Credenciais AWS ausentes.''
      | EndpointConnectionError m \<Rightarrow>
          u ''Falha ao conectar no endpoint S3 ('' @
          (case or_None (S3_ENDPOINT cfg) of
             None \<Rightarrow> u ''AWS padr'' @ [227] @ u ''o''
           | Some s \<Rightarrow> s) @
          u ''): '' @ m
      | ClientError err m \<Rightarrow>
          u ''ClientError ao acessar bucket: '' @
          py_str env (JObj (case err of None \<Rightarrow> [] | Some d \<Rightarrow> d))
      | _ \<Rightarrow> u ''Erro inesperado no S3: '' @ exn_str e)"

definition check_s3_access :: "env \<Rightarrow> config \<Rightarrow> (exn + bool \<times> pystr) \<times> call list" where
  "check_s3_access env cfg =
     ((case head_bucket env (BUCKET_NAME cfg) of
         Inr _ \<Rightarrow> Inr (True, u ''Acesso ao bucket OK.'')
       | Inl e \<Rightarrow> Inr (False, s3_error_message env cfg e)),
      [HeadBucket (BUCKET_NAME cfg)])"

section \<open>Query handler\<close>

text \<open>
  \<^verbatim>\<open>
  payload = {"question": pergunta.strip(), "k": k}
  if namespace:
      payload["namespace"] = namespace
  if documentos:
      payload["documents"] = documentos
  \<close>
\<close>

definition chat_payload :: "pystr \<Rightarrow> int \<Rightarrow> pystr option \<Rightarrow> json option \<Rightarrow> pydict" where
  "chat_payload pergunta k namespace documentos =
     [(u ''question'', JStr (strip pergunta)), (u ''k'', JInt k)] @
     (case namespace of
        None \<Rightarrow> []
      | Some ns \<Rightarrow> if ns \<noteq> [] then [(u ''namespace'', JStr ns)] else []) @
     (case documentos of
        None \<Rightarrow> []
      | Some d \<Rightarrow> if truthy d then [(u ''documents'', d)] else [])"

text \<open>
  The inner \<open>try\<close>:
  \<^verbatim>\<open>
  try:
      data = resp.json()
  except ValueError:
      data = {"raw": resp.text}
  \<close>
  Only a \<open>ValueError\<close> is caught; any other exception of \<open>resp.json()\<close> goes on to the
  handlers of the outer \<open>try\<close>.
\<close>

definition response_data :: "response \<Rightarrow> exn + json" where
  "response_data resp =
     (case resp_json resp of
        Inr d \<Rightarrow> Inr d
      | Inl e \<Rightarrow>
          if is_ValueError e then Inr (JObj [(u ''raw'', JStr (resp_text resp))]) else Inl e)"

text \<open>
  The body of the outer \<open>try\<close>:
  \<^verbatim>\<open>
  resp = requests.post(f"{BACKEND_URL}/chat", json=payload, timeout=300)
  resp.raise_for_status()
  try:
      data = resp.json()
  except ValueError:
      data = {"raw": resp.text}
  return {"ok": True, "data": data}
  \<close>
\<close>

definition chat_request :: "env \<Rightarrow> pystr \<Rightarrow> pydict \<Rightarrow> exn + pydict" where
  "chat_request env url payload =
     (case requests_post env url payload 300 of
        Inl e \<Rightarrow> Inl e
      | Inr resp \<Rightarrow>
          (case raise_for_status env resp of
             Inl e \<Rightarrow> Inl e
           | Inr _ \<Rightarrow>
               (case response_data resp of
                  Inl e \<Rightarrow> Inl e
                | Inr data \<Rightarrow> Inr [(u ''ok'', JBool True), (u ''data'', data)])))"

text \<open>
  The handlers of the \<open>try\<close>:
  \<^verbatim>\<open>
  except requests.HTTPError as e:
      msg = e.response.text if e.response is not None else str(e)
      return {"ok": False, "error": f"HTTP {getattr(e.response, 'status_code', '?')}: {msg}"}
  except requests.RequestException as e:
      return {"ok": False, "error": f"Falha de conexao com o backend: {e}"}
  \<close>
  (the source writes \<open>conexao\<close> with a tilde on the \<open>a\<close>, code point 227). Any other
  exception propagates.
\<close>

definition chat_except :: "exn \<Rightarrow> exn + pydict" where
  "chat_except e =
     (case e of
        HTTPError r m \<Rightarrow>
          (let msg = (case r of Some resp \<Rightarrow> resp_text resp | None \<Rightarrow> m);
               code = (case r of Some resp \<Rightarrow> str_nat (status_code resp) | None \<Rightarrow> u ''?'')
           in Inr [(u ''ok'', JBool False),
                   (u ''error'', JStr (u ''HTTP '' @ code @ u '': '' @ msg))])
      | RequestException m \<Rightarrow>
          Inr [(u ''ok'', JBool False),
               (u ''error'', JStr (u ''Falha de conex'' @ [227] @ u ''o com o backend: '' @ m))]
      | _ \<Rightarrow> Inl e)"

text \<open>
  \<^verbatim>\<open>
  def perguntar_backend(pergunta: str, k: int = 4, namespace: str | None = None,
                        documentos: list | None = None) -> dict:
      if not pergunta or not pergunta.strip():
          return {"ok": False, "error": "Pergunta vazia."}
      ...
  \<close>
  The result is the returned dict (or the exception that propagates) and the requests
  sent.
\<close>

definition perguntar_backend ::
  "env \<Rightarrow> config \<Rightarrow> pystr \<Rightarrow> int \<Rightarrow> pystr option \<Rightarrow> json option \<Rightarrow> (exn + pydict) \<times> call list"
where
  "perguntar_backend env cfg pergunta k namespace documentos =
     (if pergunta = [] \<or> strip pergunta = []
      then (Inr [(u ''ok'', JBool False), (u ''error'', JStr (u ''Pergunta vazia.''))], [])
      else
        (let payload = chat_payload pergunta k namespace documentos;
             url = BACKEND_URL cfg @ u ''/chat''
         in ((case chat_request env url payload of
                Inr r \<Rightarrow> Inr r
              | Inl e \<Rightarrow> chat_except e),
             [Post url payload 300])))"

section \<open>Upload handler\<close>

text \<open>
  \<^verbatim>\<open>
  key = f"{PREFIX_BASE}/{s3_safe_key(f.name)}"
  \<close>
  for the file at position \<open>i\<close> of the selection.
\<close>

definition object_key :: "env \<Rightarrow> nat \<Rightarrow> uploaded_file \<Rightarrow> pystr" where
  "object_key env i f = PREFIX_BASE @ u ''/'' @ s3_safe_key (uuid4 env i) (file_name f)"

definition extra_args :: pydict where
  "extra_args = [(u ''ContentType'', JStr (u ''application/pdf''))]"

text \<open>
  The reason recorded by each \<open>except\<close> clause of the loop:
  \<^verbatim>\<open>
  except NoCredentialsError:
      falhas.append((f.name, "NoCredentialsError (credenciais ausentes)"))
  except EndpointConnectionError as error:
      falhas.append((f.name, f"EndpointConnectionError: {error}"))
  except ClientError as error:
      err = error.response.get("Error", {})
      falhas.append((f.name, f"{err.get('Code')} - {err.get('Message')}"))
  except Exception as error:
      falhas.append((f.name, str(error)))
  \<close>
\<close>

definition falha_reason :: "env \<Rightarrow> exn \<Rightarrow> pystr" where
  "falha_reason env e =
     (case e of
        NoCredentialsError m \<Rightarrow> u ''NoCredentialsError (credenciais ausentes)''
      | EndpointConnectionError m \<Rightarrow> u ''EndpointConnectionError: '' @ m
      | ClientError err m \<Rightarrow>
          (let d = (case err of None \<Rightarrow> [] | Some d \<Rightarrow> d)
           in py_str env (dict_get d (u ''Code'')) @ u '' - '' @
              py_str env (dict_get d (u ''Message'')))
      | _ \<Rightarrow> exn_str e)"

record upload_state =
  enviados :: "pystr list"
  falhas :: "(pystr \<times> pystr) list"
  calls :: "call list"

text \<open>
  One iteration of \<open>for f in uploaded_files\<close>, for the file at position \<open>i\<close>. The file is
  an in-memory buffer, so \<open>f.seek(0)\<close> does not fail; the widget calls only display and
  are left out.
\<close>

definition upload_one :: "env \<Rightarrow> config \<Rightarrow> nat \<Rightarrow> uploaded_file \<Rightarrow> upload_state \<Rightarrow> upload_state" where
  "upload_one env cfg i f s =
     (let key = object_key env i f;
          s1 = s\<lparr>calls := calls s @ [UploadFileobj f (BUCKET_NAME cfg) key extra_args]\<rparr>
      in (case upload_fileobj env i f (BUCKET_NAME cfg) key extra_args of
            Inr _ \<Rightarrow> s1\<lparr>enviados := enviados s1 @ [key]\<rparr>
          | Inl e \<Rightarrow> s1\<lparr>falhas := falhas s1 @ [(file_name f, falha_reason env e)]\<rparr>))"

fun upload_loop :: "env \<Rightarrow> config \<Rightarrow> nat \<Rightarrow> uploaded_file list \<Rightarrow> upload_state \<Rightarrow> upload_state" where
  "upload_loop env cfg i [] s = s"
| "upload_loop env cfg i (f # fs) s = upload_loop env cfg (Suc i) fs (upload_one env cfg i f s)"

text \<open>
  \<^verbatim>\<open>
  if st.button("Enviar para S3", use_container_width=True):
      if not uploaded_files:
          st.warning("Nenhum arquivo selecionado.")
      else:
          enviados: list[str] = []
          falhas: list[tuple[str, str]] = []
          for f in uploaded_files:
              ...
  \<close>
  \<open>None\<close> is the warning.
\<close>

definition enviar_para_s3 :: "env \<Rightarrow> config \<Rightarrow> uploaded_file list \<Rightarrow> upload_state option" where
  "enviar_para_s3 env cfg uploaded_files =
     (if uploaded_files = [] then None
      else Some (upload_loop env cfg 0 uploaded_files \<lparr>enviados = [], falhas = [], calls = []\<rparr>))"

text \<open>The outcome of the upload of the file \<open>snd p\<close> at position \<open>fst p\<close>.\<close>

abbreviation upload_outcome :: "env \<Rightarrow> config \<Rightarrow> nat \<times> uploaded_file \<Rightarrow> exn + unit" where
  "upload_outcome env cfg p \<equiv>
     upload_fileobj env (fst p) (snd p) (BUCKET_NAME cfg) (object_key env (fst p) (snd p))
       extra_args"

section \<open>Rendering the answer\<close>

datatype ui_op =
    StWarning pystr
  | StMarkdown pystr
  | StJson json
  | StWrite json
  | StError json

definition type_name :: "json \<Rightarrow> pystr" where
  "type_name v =
     (case v of
        JNull \<Rightarrow> u ''NoneType''
      | JBool b \<Rightarrow> u ''bool''
      | JInt i \<Rightarrow> u ''int''
      | JFloat r \<Rightarrow> u ''float''
      | JStr s \<Rightarrow> u ''str''
      | JList xs \<Rightarrow> u ''list''
      | JObj d \<Rightarrow> u ''dict'')"

text \<open>\<open>data.get(key)\<close>: only a dict has the method.\<close>

definition data_get :: "json \<Rightarrow> pystr \<Rightarrow> exn + json" where
  "data_get data key =
     (case data of
        JObj d \<Rightarrow> Inr (dict_get d key)
      | _ \<Rightarrow> Inl (AttributeError
                 ([39] @ type_name data @ [39] @ u '' object has no attribute '' @
                  [39] @ u ''get'' @ [39])))"

text \<open>
  \<^verbatim>\<open>
  answer = data.get("answer") or data.get("resposta") or data.get("raw") or data
  fontes = data.get("sources") or data.get("fontes")
  \<close>
  \<open>or\<close> evaluates its right operand only when the left one is false.
\<close>

definition or_else :: "exn + json \<Rightarrow> exn + json \<Rightarrow> exn + json" where
  "or_else a b = (case a of Inl e \<Rightarrow> Inl e | Inr v \<Rightarrow> if truthy v then Inr v else b)"

definition answer_of :: "json \<Rightarrow> exn + json" where
  "answer_of data =
     or_else (data_get data (u ''answer''))
       (or_else (data_get data (u ''resposta''))
          (or_else (data_get data (u ''raw'')) (Inr data)))"

definition fontes_of :: "json \<Rightarrow> exn + json" where
  "fontes_of data = or_else (data_get data (u ''sources'')) (data_get data (u ''fontes''))"

text \<open>
  \<^verbatim>\<open>
  st.markdown("### Resposta:")
  if isinstance(answer, (dict, list)):
      st.json(answer)
  else:
      st.write(answer)
  if fontes:
      st.markdown("### Fontes:")
      st.json(fontes)
  \<close>
\<close>

definition is_dict_or_list :: "json \<Rightarrow> bool" where
  "is_dict_or_list v = (case v of JObj d \<Rightarrow> True | JList xs \<Rightarrow> True | _ \<Rightarrow> False)"

definition render_data :: "json \<Rightarrow> exn + ui_op list" where
  "render_data data =
     (case answer_of data of
        Inl e \<Rightarrow> Inl e
      | Inr answer \<Rightarrow>
          (case fontes_of data of
             Inl e \<Rightarrow> Inl e
           | Inr fontes \<Rightarrow>
               Inr ([StMarkdown (u ''### Resposta:''),
                     if is_dict_or_list answer then StJson answer else StWrite answer] @
                    (if truthy fontes then [StMarkdown (u ''### Fontes:''), StJson fontes]
                     else []))))"

text \<open>\<open>d[key]\<close> on a dict.\<close>

definition dict_item :: "pydict \<Rightarrow> pystr \<Rightarrow> exn + json" where
  "dict_item d key = (case map_of d key of None \<Rightarrow> Inl (KeyError key) | Some v \<Rightarrow> Inr v)"

text \<open>
  \<^verbatim>\<open>
  if resposta["ok"]:
      data = resposta["data"]
      ...
  else:
      st.error(resposta["error"])
  \<close>
\<close>

definition render_resposta :: "pydict \<Rightarrow> exn + ui_op list" where
  "render_resposta resposta =
     (case dict_item resposta (u ''ok'') of
        Inl e \<Rightarrow> Inl e
      | Inr ok \<Rightarrow>
          if truthy ok
          then (case dict_item resposta (u ''data'') of
                  Inl e \<Rightarrow> Inl e
                | Inr data \<Rightarrow> render_data data)
          else (case dict_item resposta (u ''error'') of
                  Inl e \<Rightarrow> Inl e
                | Inr msg \<Rightarrow> Inr [StError msg]))"

text \<open>
  The handler of the \<open>Enviar\<close> button:
  \<^verbatim>\<open>
  documentos = None
  if docs_json.strip():
      try:
          documentos = json.loads(docs_json)
      except Exception as error:
          st.warning(f"Documentos invalidos: {error}")
  resposta = perguntar_backend(pergunta=pergunta, k=k,
      namespace=namespace or None, documentos=documentos)
  \<close>
  (the source writes \<open>invalidos\<close> with an acute accent on the \<open>a\<close>, code point 225). The
  result is the exception that ends the run, if any, what was displayed, and the requests
  sent.
\<close>

definition parse_documentos :: "env \<Rightarrow> pystr \<Rightarrow> json option \<times> ui_op list" where
  "parse_documentos env docs_json =
     (if strip docs_json \<noteq> []
      then (case json_loads env docs_json of
              Inr v \<Rightarrow> (Some v, [])
            | Inl e \<Rightarrow>
                (None, [StWarning (u ''Documentos inv'' @ [225] @ u ''lidos: '' @ exn_str e)]))
      else (None, []))"

definition enviar ::
  "env \<Rightarrow> config \<Rightarrow> pystr \<Rightarrow> int \<Rightarrow> pystr \<Rightarrow> pystr \<Rightarrow> exn option \<times> ui_op list \<times> call list"
where
  "enviar env cfg pergunta k namespace docs_json =
     (let (documentos, shown) = parse_documentos env docs_json;
          (r, sent) = perguntar_backend env cfg pergunta k (or_None (Some namespace)) documentos
      in (case r of
            Inl e \<Rightarrow> (Some e, shown, sent)
          | Inr resposta \<Rightarrow>
              (case render_resposta resposta of
                 Inl e \<Rightarrow> (Some e, shown, sent)
               | Inr ops \<Rightarrow> (None, shown @ ops, sent))))"

section \<open>Example inputs\<close>

definition demo_cfg :: config where
  "demo_cfg = load_config Map.empty"

definition demo_uuid :: "128 word" where
  "demo_uuid = 0x1b4e28ba2fa141d2883f0016d3cca427"

definition demo_env :: "(exn + response) \<Rightarrow> (nat \<Rightarrow> exn + unit) \<Rightarrow> env" where
  "demo_env http s3_outcome =
     \<lparr> uuid4 = (\<lambda>i. demo_uuid + of_nat i),
       requests_get = (\<lambda>url t. http),
       requests_post = (\<lambda>url payload t. http),
       http_error_str = (\<lambda>resp. str_nat (status_code resp) @ u '' Error''),
       head_bucket = (\<lambda>b. s3_outcome 0),
       upload_fileobj = (\<lambda>i f b key args. s3_outcome i),
       json_loads = (\<lambda>s. Inl (ValueError (u ''Expecting value''))),
       py_repr = (\<lambda>v. u ''<repr>'') \<rparr>"

text \<open>
  A response with the given status and body; \<open>parsed\<close> is the value the body decodes to,
  \<open>None\<close> for a body whose decoding raises a \<open>ValueError\<close>.
\<close>

definition demo_response :: "nat \<Rightarrow> pystr \<Rightarrow> json option \<Rightarrow> response" where
  "demo_response code body parsed =
     Response code body
       (case parsed of None \<Rightarrow> Inl (ValueError (u ''Expecting value'')) | Some v \<Rightarrow> Inr v)"


section \<open>Auxiliary facts\<close>

lemma strip_Nil_iff: "strip s = [] \<longleftrightarrow> list_all isspace s"
proof
  assume "strip s = []"
  then have "\<forall>x\<in>set (dropWhile isspace s). isspace x"
    by (simp add: strip_def)
  then have "dropWhile isspace s = []"
    using hd_dropWhile [of isspace s] hd_in_set [of "dropWhile isspace s"] by blast
  then show "list_all isspace s"
    by (simp add: list_all_iff)
next
  assume "list_all isspace s"
  then show "strip s = []"
    by (auto simp: strip_def list_all_iff dest: set_dropWhileD)
qed

lemma blank_iff: "(pergunta = [] \<or> strip pergunta = []) \<longleftrightarrow> list_all isspace pergunta"
  using strip_Nil_iff [of pergunta] by auto

lemma keys_neq:
  "u ''question'' \<noteq> u ''k''" "u ''question'' \<noteq> u ''namespace''"
  "u ''question'' \<noteq> u ''documents''" "u ''k'' \<noteq> u ''namespace''"
  "u ''k'' \<noteq> u ''documents''" "u ''namespace'' \<noteq> u ''documents''"
  "u ''ok'' \<noteq> u ''data''" "u ''ok'' \<noteq> u ''error''"
  by (simp_all add: u_def)

lemma sent_nonblank:
  "\<not> list_all isspace q \<Longrightarrow>
   snd (perguntar_backend env cfg q k ns docs) =
     [Post (BACKEND_URL cfg @ u ''/chat'') (chat_payload q k ns docs) 300]"
  unfolding perguntar_backend_def blank_iff by (simp add: Let_def)

lemma result_nonblank:
  "\<not> list_all isspace q \<Longrightarrow>
   fst (perguntar_backend env cfg q k ns docs) =
     (case chat_request env (BACKEND_URL cfg @ u ''/chat'') (chat_payload q k ns docs) of
        Inr r \<Rightarrow> Inr r | Inl e \<Rightarrow> chat_except e)"
  unfolding perguntar_backend_def blank_iff by (simp add: Let_def)


lemma payload_keys:
  "fst ` set (chat_payload q k ns docs) =
     {u ''question'', u ''k''} \<union>
     (if \<exists>s. ns = Some s \<and> s \<noteq> [] then {u ''namespace''} else {}) \<union>
     (if \<exists>d. docs = Some d \<and> truthy d then {u ''documents''} else {})"
  by (auto simp: chat_payload_def split: option.splits)

lemma payload_values:
  "map_of (chat_payload q k ns docs) (u ''question'') = Some (JStr (strip q))"
  "map_of (chat_payload q k ns docs) (u ''k'') = Some (JInt k)"
  "map_of (chat_payload q k ns docs) (u ''namespace'') =
     (case ns of None \<Rightarrow> None | Some s \<Rightarrow> if s = [] then None else Some (JStr s))"
  "map_of (chat_payload q k ns docs) (u ''documents'') =
     (case docs of None \<Rightarrow> None | Some d \<Rightarrow> if truthy d then Some d else None)"
  using keys_neq keys_neq [symmetric]
  by (simp_all add: chat_payload_def map_add_def split: option.splits)

lemma demo_nonblank: "\<not> list_all isspace (u '' oi '')" "\<not> list_all isspace (u ''oi'')"
  by (simp_all add: u_def isspace_def)

lemma demo_blank: "list_all isspace (u ''  '')"
  by (simp add: u_def isspace_def)

lemma chat_request_ok:
  "requests_post env url payload 300 = Inr resp \<Longrightarrow>
   \<not> (400 \<le> status_code resp \<and> status_code resp < 600) \<Longrightarrow>
   chat_request env url payload =
     (case response_data resp of
        Inl e \<Rightarrow> Inl e
      | Inr data \<Rightarrow> Inr [(u ''ok'', JBool True), (u ''data'', data)])"
  by (auto simp: chat_request_def raise_for_status_def)


lemma response_data_ValueError:
  "resp_json resp = Inl e \<Longrightarrow> is_ValueError e \<Longrightarrow>
   response_data resp = Inr (JObj [(u ''raw'', JStr (resp_text resp))])"
  by (simp add: response_data_def)


lemma demo_response_sel:
  "status_code (demo_response code body parsed) = code"
  "resp_text (demo_response code body parsed) = body"
  "response_data (demo_response code body None) = Inr (JObj [(u ''raw'', JStr body)])"
  "response_data (demo_response code body (Some v)) = Inr v"
  by (simp_all add: demo_response_def response_data_def)





lemma demo_post: "requests_post (demo_env http s3o) url payload t = http"
  by (simp add: demo_env_def)

lemma demo_head_bucket: "head_bucket (demo_env http s3o) b = s3o 0"
  by (simp add: demo_env_def)

lemma demo_upload: "upload_fileobj (demo_env http s3o) i f b key args = s3o i"
  by (simp add: demo_env_def)

lemma demo_uuid4: "uuid4 (demo_env http s3o) i = demo_uuid + of_nat i"
  by (simp add: demo_env_def)

lemma demo_payload:
  "chat_payload (u ''oi'') 4 None None = [(u ''question'', JStr (u ''oi'')), (u ''k'', JInt 4)]"
  by (simp add: chat_payload_def strip_def u_def isspace_def)

text \<open>Hexadecimal digits.\<close>

lemma hex_digits_numeral:
  "hex_digits (numeral k) n = hex_digits (pred_numeral k) (n div 16) @ [hexdigit (n mod 16)]"
  unfolding numeral_eq_Suc [of k] by (rule hex_digits.simps(2))

lemma hex_digits_1: "hex_digits 1 n = [hexdigit (n mod 16)]"
  unfolding One_nat_def by (simp only: hex_digits.simps append_Nil)

lemma length_hex_digits: "length (hex_digits k n) = k"
  by (induction k arbitrary: n) simp_all

lemma hexdigit_is_hex: "d < 16 \<Longrightarrow> is_hex (hexdigit d)"
  by (auto simp: hexdigit_def is_hex_def)

lemma hex_digits_is_hex: "list_all is_hex (hex_digits k n)"
  by (induction k arbitrary: n) (simp_all add: hexdigit_is_hex)

lemma length_uuid_hex: "length (uuid_hex w) = 32"
  by (simp add: uuid_hex_def length_hex_digits)

lemma uuid_hex_is_hex: "list_all is_hex (uuid_hex w)"
  by (simp add: uuid_hex_def hex_digits_is_hex)

lemma unat_demo: "unat demo_uuid = 0x1b4e28ba2fa141d2883f0016d3cca427"
  by (simp add: demo_uuid_def)

lemma unat_demo1: "unat (demo_uuid + 1) = 0x1b4e28ba2fa141d2883f0016d3cca428"
  by (simp add: demo_uuid_def)

lemma demo_hex0: "uuid_hex demo_uuid = u ''1b4e28ba2fa141d2883f0016d3cca427''"
  unfolding uuid_hex_def unat_demo
  by (simp add: hex_digits_numeral hex_digits_1 hexdigit_def u_def)

lemma demo_hex1: "uuid_hex (demo_uuid + 1) = u ''1b4e28ba2fa141d2883f0016d3cca428''"
  unfolding uuid_hex_def unat_demo1
  by (simp add: hex_digits_numeral hex_digits_1 hexdigit_def u_def)

text \<open>\<open>split\<close> and the part after the last separator.\<close>

lemma split_not_Nil: "split sep s \<noteq> []"
  by (induction s) (auto simp: Let_def)

lemma split_no_sep: "sep \<notin> set s \<Longrightarrow> split sep s = [s]"
  by (induction s) (auto simp: Let_def)

lemma tl_split_not_Nil: "sep \<in> set s \<Longrightarrow> tl (split sep s) \<noteq> []"
  by (induction s) (auto simp: Let_def split_not_Nil)

lemma last_split_Cons:
  assumes "sep \<in> set cs"
  shows "last (split sep (c # cs)) = last (split sep cs)"
proof (cases "c = sep")
  case True
  then show ?thesis by (simp add: split_not_Nil)
next
  case False
  have "last ((c # hd (split sep cs)) # tl (split sep cs)) = last (tl (split sep cs))"
    using tl_split_not_Nil [OF assms] by simp
  also have "\<dots> = last (split sep cs)"
    using tl_split_not_Nil [OF assms] by (metis last_tl list.sel(2))
  finally show ?thesis using False by (simp add: Let_def)
qed

lemma last_split_after_last_sep:
  "s = pre @ [sep] @ suf \<Longrightarrow> sep \<notin> set suf \<Longrightarrow> last (split sep s) = suf"
proof (induction pre arbitrary: s)
  case Nil
  then show ?case by (simp add: split_no_sep)
next
  case (Cons a pre)
  have "sep \<in> set (pre @ [sep] @ suf)" by simp
  from last_split_Cons [OF this, of a] Cons show ?case by simp
qed

lemma last_split_decomp:
  "sep \<in> set s \<Longrightarrow>
   \<exists>pre. s = pre @ [sep] @ last (split sep s) \<and> sep \<notin> set (last (split sep s))"
proof (induction s)
  case Nil
  then show ?case by simp
next
  case (Cons c cs)
  show ?case
  proof (cases "sep \<in> set cs")
    case True
    from Cons.IH [OF True] obtain pre where
      p: "cs = pre @ [sep] @ last (split sep cs)" "sep \<notin> set (last (split sep cs))" by blast
    have "c # cs = (c # pre) @ [sep] @ last (split sep (c # cs))"
      using p(1) last_split_Cons [OF True, of c] by simp
    moreover have "sep \<notin> set (last (split sep (c # cs)))"
      using p(2) last_split_Cons [OF True, of c] by simp
    ultimately show ?thesis by blast
  next
    case False
    with Cons.prems have c: "c = sep" by simp
    have l: "last (split sep (c # cs)) = cs"
      using False c by (simp add: split_no_sep)
    then have "c # cs = [] @ [sep] @ last (split sep (c # cs))" using c by simp
    moreover have "sep \<notin> set (last (split sep (c # cs)))"
      using l False by simp
    ultimately show ?thesis by blast
  qed
qed

lemma split_demo:
  "split 46 (u ''a.pdf'') = [u ''a'', u ''pdf'']"
  "split 46 (u ''b.pdf'') = [u ''b'', u ''pdf'']"
  "split 46 (u ''pdf.pdf'') = [u ''pdf'', u ''pdf'']"
  "split 46 (u ''notas.'') = [u ''notas'', []]"
  by (simp_all add: u_def)

text \<open>The upload loop, field by field.\<close>

lemma upload_loop_calls:
  "calls (upload_loop env cfg i fs s) =
     calls s @
     map (\<lambda>p. UploadFileobj (snd p) (BUCKET_NAME cfg) (object_key env (fst p) (snd p)) extra_args)
       (enumerate i fs)"
  by (induction fs arbitrary: i s) (simp_all add: upload_one_def Let_def split: sum.splits)

lemma upload_loop_enviados:
  "enviados (upload_loop env cfg i fs s) =
     enviados s @
     map (\<lambda>p. object_key env (fst p) (snd p))
       (filter (\<lambda>p. \<not> isl (upload_outcome env cfg p)) (enumerate i fs))"
  by (induction fs arbitrary: i s) (simp_all add: upload_one_def Let_def split: sum.splits)

lemma upload_loop_falhas:
  "falhas (upload_loop env cfg i fs s) =
     falhas s @
     map (\<lambda>p. (file_name (snd p), falha_reason env (projl (upload_outcome env cfg p))))
       (filter (\<lambda>p. isl (upload_outcome env cfg p)) (enumerate i fs))"
  by (induction fs arbitrary: i s) (simp_all add: upload_one_def Let_def split: sum.splits)

lemma object_key_eq:
  "object_key env i f =
     u ''uploads/'' @ uuid_hex (uuid4 env i) @
     (if 46 \<in> set (file_name f) then [46] @ last (split 46 (file_name f)) else [])"
  by (simp add: object_key_def s3_safe_key_def PREFIX_BASE_def u_def Let_def)

text \<open>What is displayed for a response that is a JSON object, and for one that is a list.\<close>

lemma render_data_dict:
  "render_data (JObj d) =
     (let answer = py_or (dict_get d (u ''answer''))
                     (py_or (dict_get d (u ''resposta''))
                        (py_or (dict_get d (u ''raw'')) (JObj d)));
          fontes = py_or (dict_get d (u ''sources'')) (dict_get d (u ''fontes''))
      in Inr ([StMarkdown (u ''### Resposta:''),
               if is_dict_or_list answer then StJson answer else StWrite answer] @
              (if truthy fontes then [StMarkdown (u ''### Fontes:''), StJson fontes] else [])))"
  by (simp add: render_data_def answer_of_def fontes_of_def or_else_def data_get_def py_or_def
      Let_def)

lemma render_data_list:
  "render_data (JList xs) =
     Inl (AttributeError
       ([39] @ u ''list'' @ [39] @ u '' object has no attribute '' @ [39] @ u ''get'' @ [39]))"
  by (simp add: render_data_def answer_of_def or_else_def data_get_def type_name_def)

section \<open>The payload sent to \<open>/chat\<close>\<close>

text \<open>
  C1, as the code has it. Whenever \<open>perguntar_backend\<close> sends a request (the question has a
  character that is not whitespace), it sends one POST to \<open>/chat\<close> whose JSON payload has
  exactly these keys: \<open>question\<close>, holding the stripped question, and \<open>k\<close>, always;
  \<open>namespace\<close> exactly when a namespace is given and is not the empty string; \<open>documents\<close>
  exactly when a documents value is given and is true in Python's sense (so not for an
  empty list).
\<close>

theorem chat_payload_contract:
  "\<not> list_all isspace q \<Longrightarrow>
   snd (perguntar_backend env cfg q k ns docs) =
     [Post (BACKEND_URL cfg @ u ''/chat'') (chat_payload q k ns docs) 300] \<and>
   fst ` set (chat_payload q k ns docs) =
     {u ''question'', u ''k''} \<union>
     (if \<exists>s. ns = Some s \<and> s \<noteq> [] then {u ''namespace''} else {}) \<union>
     (if \<exists>d. docs = Some d \<and> truthy d then {u ''documents''} else {}) \<and>
   map_of (chat_payload q k ns docs) (u ''question'') = Some (JStr (strip q)) \<and>
   map_of (chat_payload q k ns docs) (u ''k'') = Some (JInt k) \<and>
   map_of (chat_payload q k ns docs) (u ''namespace'') =
     (case ns of None \<Rightarrow> None | Some s \<Rightarrow> if s = [] then None else Some (JStr s)) \<and>
   map_of (chat_payload q k ns docs) (u ''documents'') =
     (case docs of None \<Rightarrow> None | Some d \<Rightarrow> if truthy d then Some d else None)"
  using sent_nonblank [of q env cfg k ns docs] payload_keys [of q k ns docs]
    payload_values [of q k ns docs]
  by blast

text \<open>
  With the question \<open>" oi "\<close>, \<open>k = 4\<close>, the namespace \<open>"rh"\<close> and the documents \<open>[1]\<close>, all
  four keys are sent.
\<close>

theorem chat_payload_contract_witness:
  "snd (perguntar_backend (demo_env (Inr (demo_response 200 [] None)) (\<lambda>i. Inr ())) demo_cfg
          (u '' oi '') 4 (Some (u ''rh'')) (Some (JList [JInt 1]))) =
     [Post (BACKEND_URL demo_cfg @ u ''/chat'')
        [(u ''question'', JStr (u ''oi'')), (u ''k'', JInt 4), (u ''namespace'', JStr (u ''rh'')),
         (u ''documents'', JList [JInt 1])] 300]"
proof -
  have c: "chat_payload (u '' oi '') 4 (Some (u ''rh'')) (Some (JList [JInt 1])) =
             [(u ''question'', JStr (u ''oi'')), (u ''k'', JInt 4), (u ''namespace'', JStr (u ''rh'')),
              (u ''documents'', JList [JInt 1])]"
    by (simp add: chat_payload_def strip_def u_def isspace_def)
  show ?thesis using chat_payload_contract [OF demo_nonblank(1)] c by simp
qed

text \<open>
  C1 as stated fails: \<open>perguntar_backend("oi", 4, None, [])\<close> is given a documents list
  (the empty one, which the form yields for the input \<open>[]\<close>), and the payload it posts
  has no \<open>documents\<close> key.
\<close>

theorem documents_key_counterexample:
  "snd (perguntar_backend (demo_env (Inr (demo_response 200 [] None)) (\<lambda>i. Inr ())) demo_cfg
          (u ''oi'') 4 None (Some (JList []))) =
     [Post (BACKEND_URL demo_cfg @ u ''/chat'')
        [(u ''question'', JStr (u ''oi'')), (u ''k'', JInt 4)] 300]"
proof -
  have c: "chat_payload (u ''oi'') 4 None (Some (JList [])) =
             [(u ''question'', JStr (u ''oi'')), (u ''k'', JInt 4)]"
    by (simp add: chat_payload_def strip_def u_def isspace_def)
  show ?thesis using sent_nonblank [OF demo_nonblank(2)] c by simp
qed

section \<open>Blank questions\<close>

text \<open>
  C3. A question that is empty or all whitespace gets the result
  \<open>{"ok": False, "error": "Pergunta vazia."}\<close> and no request is sent; a question with a
  character that is not whitespace is forwarded: one POST to \<open>/chat\<close> is sent.
\<close>

theorem perguntar_backend_blank:
  "(list_all isspace q \<longrightarrow>
      perguntar_backend env cfg q k ns docs =
        (Inr [(u ''ok'', JBool False), (u ''error'', JStr (u ''Pergunta vazia.''))], [])) \<and>
   (\<not> list_all isspace q \<longrightarrow>
      snd (perguntar_backend env cfg q k ns docs) =
        [Post (BACKEND_URL cfg @ u ''/chat'') (chat_payload q k ns docs) 300])"
  unfolding perguntar_backend_def blank_iff by (simp add: Let_def)

text \<open>Two spaces are refused; \<open>" oi "\<close> is sent, stripped.\<close>

theorem perguntar_backend_blank_witness:
  "perguntar_backend (demo_env (Inr (demo_response 200 [] None)) (\<lambda>i. Inr ())) demo_cfg
      (u ''  '') 4 None None =
     (Inr [(u ''ok'', JBool False), (u ''error'', JStr (u ''Pergunta vazia.''))], []) \<and>
   snd (perguntar_backend (demo_env (Inr (demo_response 200 [] None)) (\<lambda>i. Inr ())) demo_cfg
          (u '' oi '') 4 None None) =
     [Post (BACKEND_URL demo_cfg @ u ''/chat'')
        [(u ''question'', JStr (u ''oi'')), (u ''k'', JInt 4)] 300]"
proof -
  have c: "chat_payload (u '' oi '') 4 None None =
             [(u ''question'', JStr (u ''oi'')), (u ''k'', JInt 4)]"
    by (simp add: chat_payload_def strip_def u_def isspace_def)
  show ?thesis
    using perguntar_backend_blank [of "u ''  ''"
        "demo_env (Inr (demo_response 200 [] None)) (\<lambda>i. Inr ())" demo_cfg 4 None None]
      perguntar_backend_blank [of "u '' oi ''"
        "demo_env (Inr (demo_response 200 [] None)) (\<lambda>i. Inr ())" demo_cfg 4 None None]
      demo_blank demo_nonblank(1) c
    by simp
qed

section \<open>Responses that are not JSON\<close>

text \<open>
  C2, as the code has it. When the backend answers a \<open>/chat\<close> POST with a status outside
  400..599 and \<open>resp.json()\<close> raises a \<open>ValueError\<close>, as it does for a malformed body,
  \<open>perguntar_backend\<close> returns a success:
  \<open>{"ok": True, "data": {"raw": <the body text>}}\<close>.
\<close>

theorem non_json_body_is_success:
  "\<not> list_all isspace q \<Longrightarrow>
   requests_post env (BACKEND_URL cfg @ u ''/chat'') (chat_payload q k ns docs) 300 = Inr resp \<Longrightarrow>
   \<not> (400 \<le> status_code resp \<and> status_code resp < 600) \<Longrightarrow>
   resp_json resp = Inl e \<Longrightarrow>
   is_ValueError e \<Longrightarrow>
   fst (perguntar_backend env cfg q k ns docs) =
     Inr [(u ''ok'', JBool True), (u ''data'', JObj [(u ''raw'', JStr (resp_text resp))])]"
  by (simp add: result_nonblank chat_request_ok response_data_ValueError)

text \<open>A status 204 with an empty body.\<close>

theorem non_json_body_is_success_witness:
  "fst (perguntar_backend (demo_env (Inr (demo_response 204 [] None)) (\<lambda>i. Inr ()))
          demo_cfg (u ''oi'') 4 None None) =
     Inr [(u ''ok'', JBool True), (u ''data'', JObj [(u ''raw'', JStr [])])]"
  using non_json_body_is_success [OF demo_nonblank(2),
      of "demo_env (Inr (demo_response 204 [] None)) (\<lambda>i. Inr ())" demo_cfg 4 None None
         "demo_response 204 [] None" "ValueError (u ''Expecting value'')"]
  by (simp add: demo_post demo_response_def)

text \<open>
  C2 as stated fails: a response with status 200 and the body \<open>not json\<close> is not reported
  as an error; the result has \<open>ok = True\<close>.
\<close>

theorem malformed_json_counterexample:
  "fst (perguntar_backend (demo_env (Inr (demo_response 200 (u ''not json'') None)) (\<lambda>i. Inr ()))
          demo_cfg (u ''oi'') 4 None None) =
     Inr [(u ''ok'', JBool True), (u ''data'', JObj [(u ''raw'', JStr (u ''not json''))])]"
  by (simp add: result_nonblank [OF demo_nonblank(2)] chat_request_def raise_for_status_def
      demo_post demo_response_sel)

section \<open>The shape of the result\<close>




section \<open>Health and access checks\<close>



text \<open>
  C4. \<open>check_s3_access\<close> issues one \<open>head_bucket\<close> call and raises nothing: it returns
  \<open>(True, "Acesso ao bucket OK.")\<close> when the call succeeds and \<open>(False, message)\<close> when it
  raises, with a message for \<open>NoCredentialsError\<close>, for \<open>EndpointConnectionError\<close>, for
  \<open>ClientError\<close> and for any other exception.
\<close>

theorem check_s3_access_spec:
  "snd (check_s3_access env cfg) = [HeadBucket (BUCKET_NAME cfg)] \<and>
   (head_bucket env (BUCKET_NAME cfg) = Inr () \<longrightarrow>
      fst (check_s3_access env cfg) = Inr (True, u ''Acesso ao bucket OK.'')) \<and>
   (\<forall>e. head_bucket env (BUCKET_NAME cfg) = Inl e \<longrightarrow>
      fst (check_s3_access env cfg) = Inr (False, s3_error_message env cfg e)) \<and>
   (\<forall>m. s3_error_message env cfg (NoCredentialsError m) = u ''Credenciais AWS ausentes.'') \<and>
   (\<forall>m. s3_error_message env cfg (EndpointConnectionError m) =
      u ''Falha ao conectar no endpoint S3 ('' @
      (case or_None (S3_ENDPOINT cfg) of None \<Rightarrow> u ''AWS padr'' @ [227] @ u ''o'' | Some s \<Rightarrow> s) @
      u ''): '' @ m) \<and>
   (\<forall>err m. s3_error_message env cfg (ClientError err m) =
      u ''ClientError ao acessar bucket: '' @
      py_str env (JObj (case err of None \<Rightarrow> [] | Some d \<Rightarrow> d))) \<and>
   (\<forall>e. (\<forall>m. e \<noteq> NoCredentialsError m) \<and> (\<forall>m. e \<noteq> EndpointConnectionError m) \<and>
        (\<forall>err m. e \<noteq> ClientError err m) \<longrightarrow>
      s3_error_message env cfg e = u ''Erro inesperado no S3: '' @ exn_str e)"
proof -
  have other: "s3_error_message env cfg e = u ''Erro inesperado no S3: '' @ exn_str e"
    if "\<forall>m. e \<noteq> NoCredentialsError m" "\<forall>m. e \<noteq> EndpointConnectionError m"
       "\<forall>err m. e \<noteq> ClientError err m" for e
    using that by (cases e) (simp_all add: s3_error_message_def)
  show ?thesis
    using other by (simp add: check_s3_access_def s3_error_message_def)
qed

text \<open>A bucket that answers, and missing credentials.\<close>

theorem check_s3_access_spec_witness:
  "fst (check_s3_access (demo_env (Inr (demo_response 200 [] None)) (\<lambda>i. Inr ())) demo_cfg) =
     Inr (True, u ''Acesso ao bucket OK.'') \<and>
   fst (check_s3_access (demo_env (Inr (demo_response 200 [] None))
          (\<lambda>i. Inl (NoCredentialsError (u ''Unable to locate credentials'')))) demo_cfg) =
     Inr (False, u ''Credenciais AWS ausentes.'')"
  using
    check_s3_access_spec [of "demo_env (Inr (demo_response 200 [] None)) (\<lambda>i. Inr ())" demo_cfg]
    check_s3_access_spec [of "demo_env (Inr (demo_response 200 [] None))
          (\<lambda>i. Inl (NoCredentialsError (u ''Unable to locate credentials'')))" demo_cfg]
  by (simp add: demo_head_bucket)

section \<open>Retries\<close>

text \<open>
  C8, as the code has it. The program has no retry loop of its own: the health check and
  the access check issue exactly one call and the query handler at most one, whatever the
  outcome. The S3 client, however, is built with a retry policy of the program's choice:
  \<open>retries = {"max_attempts": 3, "mode": "standard"}\<close>.
\<close>

theorem retry_policy:
  "retries (client_config (s3 cfg)) =
     Some [(u ''max_attempts'', JInt 3), (u ''mode'', JStr (u ''standard''))] \<and>
   length (snd (check_health_server env cfg)) = 1 \<and>
   length (snd (check_s3_access env cfg)) = 1 \<and>
   length (snd (perguntar_backend env cfg q k ns docs)) \<le> 1"
  by (simp add: s3_def check_health_server_def check_s3_access_def perguntar_backend_def Let_def)

text \<open>
  C8 as stated fails: the S3 client's \<open>retries\<close> setting is not the library's default
  (\<open>None\<close>).
\<close>

theorem default_retries_counterexample:
  "retries (client_config (s3 demo_cfg)) \<noteq> None"
  by (simp add: s3_def)

section \<open>Uploads\<close>

text \<open>
  C5. For a non-empty selection the upload handler goes through every file, in order. The
  file at position \<open>i\<close> gets the key \<open>uploads/\<close> followed by the hexadecimal form of the
  \<open>i\<close>-th UUID drawn and by the file's extension (nothing else of its name), and one
  upload of it is attempted under that key, whatever happened to the files before it. A
  file whose upload succeeds is recorded in \<open>enviados\<close> by its key, a file whose upload
  raises is recorded in \<open>falhas\<close> by its name with a reason; so every file is in exactly
  one of the two lists.
\<close>

theorem upload_handler_spec:
  assumes "uploaded_files \<noteq> []"
  shows "\<exists>st. enviar_para_s3 env cfg uploaded_files = Some st \<and>
     calls st =
       map (\<lambda>p. UploadFileobj (snd p) (BUCKET_NAME cfg) (object_key env (fst p) (snd p)) extra_args)
         (enumerate 0 uploaded_files) \<and>
     enviados st =
       map (\<lambda>p. object_key env (fst p) (snd p))
         (filter (\<lambda>p. \<not> isl (upload_outcome env cfg p)) (enumerate 0 uploaded_files)) \<and>
     falhas st =
       map (\<lambda>p. (file_name (snd p), falha_reason env (projl (upload_outcome env cfg p))))
         (filter (\<lambda>p. isl (upload_outcome env cfg p)) (enumerate 0 uploaded_files)) \<and>
     length (enviados st) + length (falhas st) = length uploaded_files \<and>
     list_all (\<lambda>p. object_key env (fst p) (snd p) =
                 u ''uploads/'' @ uuid_hex (uuid4 env (fst p)) @
                 (if 46 \<in> set (file_name (snd p))
                  then [46] @ last (split 46 (file_name (snd p))) else []))
       (enumerate 0 uploaded_files)"
proof -
  let ?st = "upload_loop env cfg 0 uploaded_files \<lparr>enviados = [], falhas = [], calls = []\<rparr>"
  have 1: "enviar_para_s3 env cfg uploaded_files = Some ?st"
    using assms by (simp add: enviar_para_s3_def)
  have 2: "length (enviados ?st) + length (falhas ?st) = length uploaded_files"
    using sum_length_filter_compl [of "\<lambda>p. isl (upload_outcome env cfg p)"
        "enumerate 0 uploaded_files"]
    by (simp add: upload_loop_enviados upload_loop_falhas add.commute)
  have 3: "list_all (\<lambda>p. object_key env (fst p) (snd p) =
                 u ''uploads/'' @ uuid_hex (uuid4 env (fst p)) @
                 (if 46 \<in> set (file_name (snd p))
                  then [46] @ last (split 46 (file_name (snd p))) else []))
       (enumerate 0 uploaded_files)"
    by (simp add: list_all_iff object_key_eq)
  show ?thesis
    using 1 2 3 by (simp add: upload_loop_calls upload_loop_enviados upload_loop_falhas)
qed

text \<open>
  Two files, \<open>a.pdf\<close> and \<open>b.pdf\<close>; the first upload fails for missing credentials, the
  second one is still attempted and succeeds.
\<close>

theorem upload_handler_spec_witness:
  "enviar_para_s3 (demo_env (Inr (demo_response 200 [] None))
       (\<lambda>i. if i = 0 then Inl (NoCredentialsError (u ''Unable to locate credentials'')) else Inr ()))
     demo_cfg
     [\<lparr>file_name = u ''a.pdf'', file_bytes = []\<rparr>, \<lparr>file_name = u ''b.pdf'', file_bytes = []\<rparr>] =
   Some \<lparr>enviados = [u ''uploads/1b4e28ba2fa141d2883f0016d3cca428.pdf''],
         falhas = [(u ''a.pdf'', u ''NoCredentialsError (credenciais ausentes)'')],
         calls = [UploadFileobj \<lparr>file_name = u ''a.pdf'', file_bytes = []\<rparr> (u ''rag-teste-bnu'')
                    (u ''uploads/1b4e28ba2fa141d2883f0016d3cca427.pdf'') extra_args,
                  UploadFileobj \<lparr>file_name = u ''b.pdf'', file_bytes = []\<rparr> (u ''rag-teste-bnu'')
                    (u ''uploads/1b4e28ba2fa141d2883f0016d3cca428.pdf'') extra_args]\<rparr>"
proof -
  let ?E = "demo_env (Inr (demo_response 200 [] None))
       (\<lambda>i. if i = 0 then Inl (NoCredentialsError (u ''Unable to locate credentials'')) else Inr ())"
  let ?fs = "[\<lparr>file_name = u ''a.pdf'', file_bytes = []\<rparr>, \<lparr>file_name = u ''b.pdf'', file_bytes = []\<rparr>]"
  have k0: "u ''uploads/'' @ u ''1b4e28ba2fa141d2883f0016d3cca427'' @ 46 # u ''pdf''
     = u ''uploads/1b4e28ba2fa141d2883f0016d3cca427.pdf''" by (simp add: u_def)
  have k1: "u ''uploads/'' @ u ''1b4e28ba2fa141d2883f0016d3cca428'' @ 46 # u ''pdf''
     = u ''uploads/1b4e28ba2fa141d2883f0016d3cca428.pdf''" by (simp add: u_def)
  have m: "46 \<in> set (u ''a.pdf'')" "46 \<in> set (u ''b.pdf'')" by (simp_all add: u_def)
  have b: "BUCKET_NAME demo_cfg = u ''rag-teste-bnu''"
    by (simp add: demo_cfg_def load_config_def getenv_default_def)
  have e: "enumerate 0 ?fs = [(0, \<lparr>file_name = u ''a.pdf'', file_bytes = []\<rparr>),
                              (1, \<lparr>file_name = u ''b.pdf'', file_bytes = []\<rparr>)]"
    by (simp add: enumerate_eq_zip upt_rec)
  have ne: "?fs \<noteq> []" by simp
  from upload_handler_spec [OF ne, of ?E demo_cfg] obtain st where
    st: "enviar_para_s3 ?E demo_cfg ?fs = Some st"
      "calls st =
         map (\<lambda>p. UploadFileobj (snd p) (BUCKET_NAME demo_cfg) (object_key ?E (fst p) (snd p)) extra_args)
           (enumerate 0 ?fs)"
      "enviados st =
         map (\<lambda>p. object_key ?E (fst p) (snd p))
           (filter (\<lambda>p. \<not> isl (upload_outcome ?E demo_cfg p)) (enumerate 0 ?fs))"
      "falhas st =
         map (\<lambda>p. (file_name (snd p), falha_reason ?E (projl (upload_outcome ?E demo_cfg p))))
           (filter (\<lambda>p. isl (upload_outcome ?E demo_cfg p)) (enumerate 0 ?fs))"
    by blast
  have c: "calls st = [UploadFileobj \<lparr>file_name = u ''a.pdf'', file_bytes = []\<rparr> (u ''rag-teste-bnu'')
                    (u ''uploads/1b4e28ba2fa141d2883f0016d3cca427.pdf'') extra_args,
                  UploadFileobj \<lparr>file_name = u ''b.pdf'', file_bytes = []\<rparr> (u ''rag-teste-bnu'')
                    (u ''uploads/1b4e28ba2fa141d2883f0016d3cca428.pdf'') extra_args]"
    unfolding st(2) e
    by (simp add: object_key_eq demo_uuid4 demo_hex0 demo_hex1 split_demo m b k0 k1)
  have s: "enviados st = [u ''uploads/1b4e28ba2fa141d2883f0016d3cca428.pdf'']"
    unfolding st(3) e
    by (simp add: object_key_eq demo_uuid4 demo_upload demo_hex1 split_demo m k1)
  have f: "falhas st = [(u ''a.pdf'', u ''NoCredentialsError (credenciais ausentes)'')]"
    unfolding st(4) e
    by (simp add: demo_upload falha_reason_def)
  show ?thesis
    using st(1) c s f by simp
qed

section \<open>Responses that are not JSON objects\<close>

text \<open>
  C7 at a response the code does not handle. The backend answers the POST with status 200
  and the JSON body \<open>[]\<close>. \<open>perguntar_backend\<close> returns \<open>{"ok": True, "data": []}\<close>, and the
  handler of the \<open>Enviar\<close> button calls \<open>data.get("answer")\<close> on the list: the run ends with
  an \<open>AttributeError\<close> and nothing is displayed. (For a response that is a JSON object,
  \<open>render_data_dict\<close> gives what is displayed.)
\<close>

theorem enviar_list_response:
  "enviar (demo_env (Inr (demo_response 200 (u ''[]'') (Some (JList [])))) (\<lambda>i. Inr ())) demo_cfg
     (u ''oi'') 4 [] [] =
   (Some (AttributeError
      ([39] @ u ''list'' @ [39] @ u '' object has no attribute '' @ [39] @ u ''get'' @ [39])),
    [],
    [Post (BACKEND_URL demo_cfg @ u ''/chat'')
       [(u ''question'', JStr (u ''oi'')), (u ''k'', JInt 4)] 300])"
proof -
  let ?E = "demo_env (Inr (demo_response 200 (u ''[]'') (Some (JList [])))) (\<lambda>i. Inr ())"
  have p: "perguntar_backend ?E demo_cfg (u ''oi'') 4 None None =
      (Inr [(u ''ok'', JBool True), (u ''data'', JList [])],
       [Post (BACKEND_URL demo_cfg @ u ''/chat'')
          [(u ''question'', JStr (u ''oi'')), (u ''k'', JInt 4)] 300])"
    using result_nonblank [OF demo_nonblank(2), of ?E demo_cfg 4 None None]
      sent_nonblank [OF demo_nonblank(2), of ?E demo_cfg 4 None None] demo_payload
    by (simp add: prod_eq_iff chat_request_def raise_for_status_def demo_post demo_response_def
        response_data_def)
  have r: "render_resposta [(u ''ok'', JBool True), (u ''data'', JList [])] =
      Inl (AttributeError
        ([39] @ u ''list'' @ [39] @ u '' object has no attribute '' @ [39] @ u ''get'' @ [39]))"
    using keys_neq by (simp add: render_resposta_def dict_item_def render_data_list)
  have d: "parse_documentos ?E [] = (None, [])"
    by (simp add: parse_documentos_def strip_def)
  show ?thesis
    unfolding enviar_def by (simp add: d or_None_def p r)
qed

section \<open>The form of an object key\<close>

text \<open>
  C10, as the code has it. \<open>uuid4().hex\<close> is a string of 32 hexadecimal digits. For a name
  without \<open>.\<close>, \<open>s3_safe_key\<close> returns that string; for a name with a \<open>.\<close>, it returns that
  string followed by \<open>.\<close> and by the part of the name after its last \<open>.\<close> (which is empty
  for a name that ends in \<open>.\<close>). The part of the name before the last \<open>.\<close> is not used:
  two names with the same extension get the same key from the same UUID.
\<close>

theorem s3_safe_key_spec:
  "length (uuid_hex w) = 32 \<and> list_all is_hex (uuid_hex w) \<and>
   (46 \<notin> set name \<longrightarrow> s3_safe_key w name = uuid_hex w) \<and>
   (46 \<in> set name \<longrightarrow>
      (\<exists>pre suf. name = pre @ [46] @ suf \<and> 46 \<notin> set suf \<and>
         s3_safe_key w name = uuid_hex w @ [46] @ suf)) \<and>
   (\<forall>base base' suf. 46 \<notin> set suf \<longrightarrow>
      s3_safe_key w (base @ [46] @ suf) = s3_safe_key w (base' @ [46] @ suf))"
proof -
  have a: "46 \<notin> set name \<longrightarrow> s3_safe_key w name = uuid_hex w"
    by (simp add: s3_safe_key_def)
  have b: "46 \<in> set name \<longrightarrow>
      (\<exists>pre suf. name = pre @ [46] @ suf \<and> 46 \<notin> set suf \<and>
         s3_safe_key w name = uuid_hex w @ [46] @ suf)"
  proof
    assume d: "46 \<in> set name"
    from last_split_decomp [OF d] obtain pre where
      "name = pre @ [46] @ last (split 46 name)" "46 \<notin> set (last (split 46 name))" by blast
    moreover have "s3_safe_key w name = uuid_hex w @ [46] @ last (split 46 name)"
      using d by (simp add: s3_safe_key_def)
    ultimately show "\<exists>pre suf. name = pre @ [46] @ suf \<and> 46 \<notin> set suf \<and>
         s3_safe_key w name = uuid_hex w @ [46] @ suf" by blast
  qed
  have c: "\<forall>base base' suf. 46 \<notin> set suf \<longrightarrow>
      s3_safe_key w (base @ [46] @ suf) = s3_safe_key w (base' @ [46] @ suf)"
  proof (intro allI impI)
    fix base base' suf :: pystr
    assume n: "46 \<notin> set suf"
    have "last (split 46 (base @ [46] @ suf)) = suf" "last (split 46 (base' @ [46] @ suf)) = suf"
      using n by (simp_all add: last_split_after_last_sep)
    then show "s3_safe_key w (base @ [46] @ suf) = s3_safe_key w (base' @ [46] @ suf)"
      by (simp add: s3_safe_key_def)
  qed
  show ?thesis
    using a b c length_uuid_hex [of w] uuid_hex_is_hex [of w] by blast
qed

text \<open>The names \<open>LEIAME\<close> (no \<open>.\<close>) and \<open>notas.\<close> (ending in \<open>.\<close>).\<close>

theorem s3_safe_key_spec_witness:
  "s3_safe_key demo_uuid (u ''LEIAME'') = u ''1b4e28ba2fa141d2883f0016d3cca427'' \<and>
   (\<exists>pre suf. u ''notas.'' = pre @ [46] @ suf \<and> 46 \<notin> set suf \<and>
      s3_safe_key demo_uuid (u ''notas.'') = u ''1b4e28ba2fa141d2883f0016d3cca427'' @ [46] @ suf)"
proof -
  have n: "46 \<notin> set (u ''LEIAME'')" "46 \<in> set (u ''notas.'')" by (simp_all add: u_def)
  show ?thesis
    using s3_safe_key_spec [of demo_uuid "u ''LEIAME''"] s3_safe_key_spec [of demo_uuid "u ''notas.''"] n
    by (simp add: demo_hex0)
qed

text \<open>
  C10 as stated fails: the key made for the name \<open>pdf.pdf\<close> contains \<open>pdf\<close>, the name
  without its extension.
\<close>

theorem base_name_counterexample:
  "s3_safe_key demo_uuid (u ''pdf.pdf'') = u ''1b4e28ba2fa141d2883f0016d3cca427.pdf'' \<and>
   sublist (u ''pdf'') (s3_safe_key demo_uuid (u ''pdf.pdf''))"
proof -
  have m: "46 \<in> set (u ''pdf.pdf'')" by (simp add: u_def)
  have k: "u ''1b4e28ba2fa141d2883f0016d3cca427'' @ 46 # u ''pdf'' =
           u ''1b4e28ba2fa141d2883f0016d3cca427.pdf''" by (simp add: u_def)
  have e: "s3_safe_key demo_uuid (u ''pdf.pdf'') = u ''1b4e28ba2fa141d2883f0016d3cca427'' @ 46 # u ''pdf''"
    by (simp add: s3_safe_key_def m split_demo demo_hex0)
  have "sublist (u ''pdf'') ((u ''1b4e28ba2fa141d2883f0016d3cca427'' @ [46]) @ u ''pdf'' @ [])"
    unfolding sublist_def by blast
  then show ?thesis using e k by simp
qed

end
